theory Spec2Isabelle
  imports Main "HOL-Library.Word"
begin

unbundle bit_operations_syntax

section \<open>The serial chooser context of \<^verbatim>\<open>shell/browser/serial/serial_chooser_context.cc\<close>\<close>

text \<open>
  The development embeds the functions of \<^verbatim>\<open>serial_chooser_context.cc\<close>: the token
  codec (\<^verbatim>\<open>EncodeToken\<close>, \<^verbatim>\<open>DecodeToken\<close>), the serializer \<^verbatim>\<open>PortInfoToValue\<close>,
  the eligibility rule \<^verbatim>\<open>CanStorePersistentEntry\<close>, and the operations of
  \<^verbatim>\<open>SerialChooserContext\<close> on its members \<^verbatim>\<open>port_info_\<close>, \<^verbatim>\<open>ephemeral_ports_\<close> and
  \<^verbatim>\<open>port_observer_list_\<close>. The three build targets selected by \<^verbatim>\<open>#if defined(OS_WIN)\<close>
  and \<^verbatim>\<open>#if defined(OS_MAC)\<close> are a parameter of every function that branches on them.
  Assertions that only exist in debug builds (\<^verbatim>\<open>DCHECK\<close>) are not branches of the model.
\<close>

subsection \<open>Base64 (\<^verbatim>\<open>base/base64.h\<close>)\<close>

text \<open>
  \<^verbatim>\<open>base::Base64Encode\<close> and \<^verbatim>\<open>base::Base64Decode\<close> belong to the Chromium base library and
  are not part of the file. They are modelled as the standard alphabet with \<^verbatim>\<open>=\<close> padding:
  the encoder maps each group of three bytes to four characters and pads the last group;
  the decoder accepts the empty input, rejects an input whose length is not a positive
  multiple of four, removes at most two trailing pad characters, and rejects every
  character outside the alphabet.
\<close>

type_synonym byte = "8 word"

definition kBase64Chars :: string where
  "kBase64Chars = ''ABCDEFGHIJKLMNOPQRSTUVWXYZabcdefghijklmnopqrstuvwxyz0123456789+/''"

definition kPad :: char where
  "kPad = CHR ''=''"

definition b64_char :: "nat \<Rightarrow> char" where
  "b64_char n = kBase64Chars ! n"

definition b64_val :: "char \<Rightarrow> nat option" where
  "b64_val c = map_of (zip kBase64Chars [0..<64]) c"

text \<open>The four characters of a 24-bit group, and the three bytes of one.\<close>

definition group_chars :: "nat \<Rightarrow> string" where
  "group_chars n = [b64_char (n div 262144), b64_char (n div 4096 mod 64),
                    b64_char (n div 64 mod 64), b64_char (n mod 64)]"

definition triple_bytes :: "nat \<Rightarrow> byte list" where
  "triple_bytes n = [of_nat (n div 65536), of_nat (n div 256 mod 256), of_nat (n mod 256)]"

definition group_bytes :: "nat \<Rightarrow> nat \<Rightarrow> nat \<Rightarrow> nat \<Rightarrow> byte list" where
  "group_bytes v0 v1 v2 v3 = triple_bytes (((v0 * 64 + v1) * 64 + v2) * 64 + v3)"

fun Base64Encode :: "byte list \<Rightarrow> string" where
  "Base64Encode (a # b # c # rest) =
     group_chars (unat a * 65536 + unat b * 256 + unat c) @ Base64Encode rest"
| "Base64Encode [a, b] = take 3 (group_chars (unat a * 65536 + unat b * 256)) @ [kPad]"
| "Base64Encode [a] = take 2 (group_chars (unat a * 65536)) @ [kPad, kPad]"
| "Base64Encode [] = []"

fun decode_chunks :: "string \<Rightarrow> byte list option" where
  "decode_chunks (c0 # c1 # c2 # c3 # rest) =
     (case (b64_val c0, b64_val c1, b64_val c2, b64_val c3) of
        (Some v0, Some v1, Some v2, Some v3) \<Rightarrow>
          (case decode_chunks rest of
             None \<Rightarrow> None
           | Some bs \<Rightarrow> Some (group_bytes v0 v1 v2 v3 @ bs))
      | _ \<Rightarrow> None)"
| "decode_chunks [c0, c1, c2] =
     (case (b64_val c0, b64_val c1, b64_val c2) of
        (Some v0, Some v1, Some v2) \<Rightarrow> Some (take 2 (group_bytes v0 v1 v2 0))
      | _ \<Rightarrow> None)"
| "decode_chunks [c0, c1] =
     (case (b64_val c0, b64_val c1) of
        (Some v0, Some v1) \<Rightarrow> Some (take 1 (group_bytes v0 v1 0 0))
      | _ \<Rightarrow> None)"
| "decode_chunks [c0] = (case b64_val c0 of Some v0 \<Rightarrow> Some [] | None \<Rightarrow> None)"
| "decode_chunks [] = Some []"

definition strip_pad :: "string \<Rightarrow> string" where
  "strip_pad s =
     (if last s = kPad
      then (if last (butlast s) = kPad then butlast (butlast s) else butlast s)
      else s)"

definition Base64Decode :: "string \<Rightarrow> byte list option" where
  "Base64Decode s =
     (if s = [] then Some []
      else if length s < 4 \<or> length s mod 4 \<noteq> 0 then None
      else decode_chunks (strip_pad s))"

subsection \<open>Tokens (\<^verbatim>\<open>base::UnguessableToken\<close>)\<close>

text \<open>
  \<^verbatim>\<open>base::UnguessableToken\<close> is declared in the Chromium base library: a pair of 64-bit
  halves read by \<^verbatim>\<open>GetHighForSerialization\<close> and \<^verbatim>\<open>GetLowForSerialization\<close> and rebuilt by
  \<^verbatim>\<open>Deserialize(high, low)\<close>. The default constructor \<^verbatim>\<open>UnguessableToken()\<close> gives the empty
  token, whose halves are both zero (\<^verbatim>\<open>is_empty()\<close>).
\<close>

record UnguessableToken =
  high :: "64 word"
  low :: "64 word"

definition UnguessableToken_empty :: UnguessableToken where
  "UnguessableToken_empty = \<lparr>high = 0, low = 0\<rparr>"

definition Deserialize :: "64 word \<Rightarrow> 64 word \<Rightarrow> UnguessableToken" where
  "Deserialize h l = \<lparr>high = h, low = l\<rparr>"

text \<open>
  \<^verbatim>\<open>reinterpret_cast<const char*>(&data[0])\<close> reads the two \<^verbatim>\<open>uint64_t\<close> as sixteen bytes
  of memory, and \<^verbatim>\<open>reinterpret_cast<const uint64_t*>(buffer.data())\<close> reads them back. Every
  target of the build is little-endian: the least significant byte comes first.
\<close>

definition uint64_bytes :: "64 word \<Rightarrow> byte list" where
  "uint64_bytes w =
     [ucast w, ucast (drop_bit 8 w), ucast (drop_bit 16 w), ucast (drop_bit 24 w),
      ucast (drop_bit 32 w), ucast (drop_bit 40 w), ucast (drop_bit 48 w), ucast (drop_bit 56 w)]"

fun bytes_uint64 :: "byte list \<Rightarrow> 64 word" where
  "bytes_uint64 [] = 0"
| "bytes_uint64 (b # bs) = ucast b OR push_bit 8 (bytes_uint64 bs)"

text \<open>The \<open>k\<close> low bytes of a word, least significant first: \<open>uint64_bytes\<close> is
  \<open>low_bytes\<close> at eight.\<close>

fun low_bytes :: "nat \<Rightarrow> 64 word \<Rightarrow> byte list" where
  "low_bytes 0 w = []"
| "low_bytes (Suc k) w = ucast w # low_bytes k (drop_bit 8 w)"

definition EncodeToken :: "UnguessableToken \<Rightarrow> string" where
  "EncodeToken token = Base64Encode (uint64_bytes (high token) @ uint64_bytes (low token))"

definition DecodeToken :: "string \<Rightarrow> UnguessableToken" where
  "DecodeToken input =
     (case Base64Decode input of
        None \<Rightarrow> UnguessableToken_empty
      | Some buffer \<Rightarrow>
          if length buffer \<noteq> 16 then UnguessableToken_empty
          else Deserialize (bytes_uint64 (take 8 buffer)) (bytes_uint64 (drop 8 buffer)))"

subsection \<open>Port descriptors and stored values\<close>

datatype platform = OS_WIN | OS_MAC | OS_OTHER

text \<open>
  \<^verbatim>\<open>device::mojom::SerialPortInfo\<close>, with the fields the file reads. \<^verbatim>\<open>device_instance_id\<close>
  exists on Windows only and \<^verbatim>\<open>usb_driver_name\<close> on macOS only; the functions below read
  them on no other platform. \<^verbatim>\<open>path\<close> stands for the text of the \<^verbatim>\<open>base::FilePath\<close>.
\<close>

record SerialPortInfo =
  token :: UnguessableToken
  path :: string
  display_name :: "string option"
  device_instance_id :: string
  has_vendor_id :: bool
  vendor_id :: "16 word"
  has_product_id :: bool
  product_id :: "16 word"
  serial_number :: "string option"
  usb_driver_name :: "string option"

text \<open>
  \<^verbatim>\<open>base::Value\<close>: the dictionary the serializer builds holds strings and integers; a
  stored record may hold a value of another type, for which both lookups below fail.
\<close>

datatype val = StringValue string | IntValue int | BoolValue bool

type_synonym dict = "string \<rightharpoonup> val"

definition kPortNameKey :: string where "kPortNameKey = ''name''"
definition kTokenKey :: string where "kTokenKey = ''token''"
definition kDeviceInstanceIdKey :: string where "kDeviceInstanceIdKey = ''device_instance_id''"
definition kVendorIdKey :: string where "kVendorIdKey = ''vendor_id''"
definition kProductIdKey :: string where "kProductIdKey = ''product_id''"
definition kSerialNumberKey :: string where "kSerialNumberKey = ''serial_number''"
definition kUsbDriverKey :: string where "kUsbDriverKey = ''usb_driver''"

text \<open>\<^verbatim>\<open>FindStringKey\<close> and \<^verbatim>\<open>FindIntKey\<close> yield nothing for an absent key and for a value of
  another type.\<close>

definition FindStringKey :: "dict \<Rightarrow> string \<Rightarrow> string option" where
  "FindStringKey d k = (case d k of Some (StringValue s) \<Rightarrow> Some s | _ \<Rightarrow> None)"

definition FindIntKey :: "dict \<Rightarrow> string \<Rightarrow> int option" where
  "FindIntKey d k = (case d k of Some (IntValue i) \<Rightarrow> Some i | _ \<Rightarrow> None)"

definition LossyDisplayName :: "string \<Rightarrow> string" where
  "LossyDisplayName p = p"

subsection \<open>\<^verbatim>\<open>CanStorePersistentEntry\<close> and \<^verbatim>\<open>PortInfoToValue\<close>\<close>

definition CanStorePersistentEntry :: "platform \<Rightarrow> SerialPortInfo \<Rightarrow> bool" where
  "CanStorePersistentEntry pl port =
     (if display_name port = None \<or> display_name port = Some [] then False
      else if pl = OS_WIN then device_instance_id port \<noteq> []
      else if \<not> has_vendor_id port \<or> \<not> has_product_id port \<or>
              serial_number port = None \<or> serial_number port = Some [] then False
      else if pl = OS_MAC \<and> (usb_driver_name port = None \<or> usb_driver_name port = Some [])
      then False
      else True)"

text \<open>
  The serializer dereferences \<^verbatim>\<open>*port.serial_number\<close> and \<^verbatim>\<open>*port.usb_driver_name\<close> only
  after \<^verbatim>\<open>CanStorePersistentEntry\<close> has held, where both are present
  (lemma \<open>CanStorePersistentEntry_fields\<close> below).
\<close>

definition PortInfoToValue :: "platform \<Rightarrow> SerialPortInfo \<Rightarrow> dict" where
  "PortInfoToValue pl port =
     (let value = Map.empty(kPortNameKey \<mapsto> StringValue
                    (if display_name port \<noteq> None \<and> display_name port \<noteq> Some []
                     then the (display_name port) else LossyDisplayName (path port)))
      in if \<not> CanStorePersistentEntry pl port
         then value(kTokenKey \<mapsto> StringValue (EncodeToken (token port)))
         else if pl = OS_WIN
         then value(kDeviceInstanceIdKey \<mapsto> StringValue (device_instance_id port))
         else let value = value(kVendorIdKey \<mapsto> IntValue (uint (vendor_id port)),
                                kProductIdKey \<mapsto> IntValue (uint (product_id port)),
                                kSerialNumberKey \<mapsto> StringValue (the (serial_number port)))
              in if pl = OS_MAC
                 then value(kUsbDriverKey \<mapsto> StringValue (the (usb_driver_name port)))
                 else value)"

subsection \<open>The context\<close>

type_synonym origin = string

type_synonym observer = nat

datatype port_event = PortAdded SerialPortInfo | PortRemoved SerialPortInfo

text \<open>
  The members of \<^verbatim>\<open>SerialChooserContext\<close>. \<open>granted_objects\<close> is the collection
  \<^verbatim>\<open>kSerialGrantedDevicesPref\<close> of the browser context, as
  \<^verbatim>\<open>GetGrantedObjects(origin, kSerialGrantedDevicesPref)\<close> lists it for each origin.
  \<open>observer_calls\<close> records, in order, each call made on a registered observer.
  \<open>port_manager\<close> and \<open>client_receiver\<close> tell whether the two mojo endpoints are bound.
\<close>

record SerialChooserContext =
  granted_objects :: "origin \<Rightarrow> dict list"
  ephemeral_ports :: "origin \<rightharpoonup> UnguessableToken set"
  port_info :: "UnguessableToken \<rightharpoonup> dict"
  port_observer_list :: "observer list"
  observer_calls :: "(observer \<times> port_event) list"
  port_manager :: bool
  client_receiver :: bool

text \<open>
  Modelled from the spec: \<^verbatim>\<open>ElectronBrowserContext::GrantObjectPermission\<close> is not in the
  file. The spec describes the durable store as a per-origin ordered sequence of attribute
  maps that this component only appends to and queries, with upsert semantics of its own:
  granting the same attribute map to an origin twice does not duplicate the entry.
  \<^verbatim>\<open>GrantPortPermission\<close> below takes the collaborator's write as a parameter; this is the
  instance used on concrete inputs.
\<close>

definition GrantObjectPermission ::
  "origin \<Rightarrow> dict \<Rightarrow> (origin \<Rightarrow> dict list) \<Rightarrow> (origin \<Rightarrow> dict list)" where
  "GrantObjectPermission origin object objects =
     (if object \<in> set (objects origin) then objects
      else objects(origin := objects origin @ [object]))"

text \<open>\<^verbatim>\<open>port_info_.insert\<close> keeps the entry of a token that is already in the map;
  \<^verbatim>\<open>ephemeral_ports_[origin]\<close> creates the empty set for an origin that has none.\<close>

definition GrantPortPermission ::
  "platform \<Rightarrow> (origin \<Rightarrow> dict \<Rightarrow> (origin \<Rightarrow> dict list) \<Rightarrow> (origin \<Rightarrow> dict list)) \<Rightarrow>
   origin \<Rightarrow> SerialPortInfo \<Rightarrow> SerialChooserContext \<Rightarrow> SerialChooserContext" where
  "GrantPortPermission pl grant_object origin port s =
     (let value = PortInfoToValue pl port;
          s1 = s\<lparr>port_info :=
                  (case port_info s (token port) of
                     Some old \<Rightarrow> port_info s
                   | None \<Rightarrow> (port_info s)(token port \<mapsto> value))\<rparr>
      in if CanStorePersistentEntry pl port
         then s1\<lparr>granted_objects := grant_object origin value (granted_objects s1)\<rparr>
         else s1\<lparr>ephemeral_ports :=
                  (ephemeral_ports s1)(origin \<mapsto>
                     insert (token port)
                       (case ephemeral_ports s1 origin of None \<Rightarrow> {} | Some ports \<Rightarrow> ports))\<rparr>)"

text \<open>
  The body of the loop in \<^verbatim>\<open>HasPortPermission\<close> on one stored record: \<open>Inr True\<close> is
  \<^verbatim>\<open>return true\<close>, \<open>Inr False\<close> goes on to the next record. The results of
  \<^verbatim>\<open>FindStringKey\<close> and \<^verbatim>\<open>FindIntKey\<close> are dereferenced unchecked, in the order of the
  source; dereferencing a failed lookup is the fault \<open>NullDereference\<close>.
\<close>

datatype fault = NullDereference

definition device_matches :: "platform \<Rightarrow> SerialPortInfo \<Rightarrow> dict \<Rightarrow> fault + bool" where
  "device_matches pl port device =
     (if pl = OS_WIN then
        (case FindStringKey device kDeviceInstanceIdKey of
           None \<Rightarrow> Inl NullDereference
         | Some instance_id \<Rightarrow> Inr (device_instance_id port = instance_id))
      else
        (case FindIntKey device kVendorIdKey of
           None \<Rightarrow> Inl NullDereference
         | Some vendor \<Rightarrow>
        (case FindIntKey device kProductIdKey of
           None \<Rightarrow> Inl NullDereference
         | Some product \<Rightarrow>
        (case FindStringKey device kSerialNumberKey of
           None \<Rightarrow> Inl NullDereference
         | Some serial \<Rightarrow>
             if uint (vendor_id port) \<noteq> vendor \<or> uint (product_id port) \<noteq> product \<or>
                serial_number port \<noteq> Some serial
             then Inr False
             else if pl = OS_MAC then
               (case FindStringKey device kUsbDriverKey of
                  None \<Rightarrow> Inl NullDereference
                | Some driver \<Rightarrow>
                    if usb_driver_name port \<noteq> Some driver then Inr False else Inr True)
             else Inr True))))"

fun scan_granted :: "platform \<Rightarrow> SerialPortInfo \<Rightarrow> dict list \<Rightarrow> fault + bool" where
  "scan_granted pl port [] = Inr False"
| "scan_granted pl port (device # object_list) =
     (case device_matches pl port device of
        Inl f \<Rightarrow> Inl f
      | Inr True \<Rightarrow> Inr True
      | Inr False \<Rightarrow> scan_granted pl port object_list)"

definition HasPortPermission ::
  "platform \<Rightarrow> SerialChooserContext \<Rightarrow> origin \<Rightarrow> SerialPortInfo \<Rightarrow> fault + bool" where
  "HasPortPermission pl s origin port =
     (if (case ephemeral_ports s origin of
            None \<Rightarrow> False
          | Some ports \<Rightarrow> token port \<in> ports)
      then Inr True
      else if \<not> CanStorePersistentEntry pl port then Inr False
      else scan_granted pl port (granted_objects s origin))"

text \<open>\<^verbatim>\<open>base::ObserverList\<close>: an observer is registered once; notifying calls each
  registered observer in registration order.\<close>

definition AddPortObserver :: "observer \<Rightarrow> SerialChooserContext \<Rightarrow> SerialChooserContext" where
  "AddPortObserver ob s =
     (if ob \<in> set (port_observer_list s) then s
      else s\<lparr>port_observer_list := port_observer_list s @ [ob]\<rparr>)"

definition RemovePortObserver :: "observer \<Rightarrow> SerialChooserContext \<Rightarrow> SerialChooserContext" where
  "RemovePortObserver ob s = s\<lparr>port_observer_list := removeAll ob (port_observer_list s)\<rparr>"

definition OnPortAdded :: "SerialPortInfo \<Rightarrow> SerialChooserContext \<Rightarrow> SerialChooserContext" where
  "OnPortAdded port s =
     s\<lparr>observer_calls :=
         observer_calls s @ map (\<lambda>ob. (ob, PortAdded port)) (port_observer_list s)\<rparr>"

definition OnPortRemoved :: "SerialPortInfo \<Rightarrow> SerialChooserContext \<Rightarrow> SerialChooserContext" where
  "OnPortRemoved port s =
     (let s1 = s\<lparr>observer_calls :=
                  observer_calls s @ map (\<lambda>ob. (ob, PortRemoved port)) (port_observer_list s)\<rparr>
      in s1\<lparr>port_info := (port_info s1)(token port := None)\<rparr>)"

definition OnPortManagerConnectionError :: "SerialChooserContext \<Rightarrow> SerialChooserContext" where
  "OnPortManagerConnectionError s =
     s\<lparr>port_manager := False, client_receiver := False,
       port_info := Map.empty, ephemeral_ports := Map.empty\<rparr>"

subsection \<open>Predicates on stored records\<close>

text \<open>
  A stored record carries the expected fields when every lookup of the loop body
  succeeds on it; the record agrees with a port when each of these fields is present and
  equal to the port's attribute.
\<close>

definition has_expected_fields :: "platform \<Rightarrow> dict \<Rightarrow> bool" where
  "has_expected_fields pl device =
     (if pl = OS_WIN then FindStringKey device kDeviceInstanceIdKey \<noteq> None
      else FindIntKey device kVendorIdKey \<noteq> None \<and>
           FindIntKey device kProductIdKey \<noteq> None \<and>
           FindStringKey device kSerialNumberKey \<noteq> None \<and>
           (pl = OS_MAC \<longrightarrow> FindStringKey device kUsbDriverKey \<noteq> None))"

definition fields_equal :: "platform \<Rightarrow> SerialPortInfo \<Rightarrow> dict \<Rightarrow> bool" where
  "fields_equal pl port device =
     (if pl = OS_WIN
      then FindStringKey device kDeviceInstanceIdKey = Some (device_instance_id port)
      else FindIntKey device kVendorIdKey = Some (uint (vendor_id port)) \<and>
           FindIntKey device kProductIdKey = Some (uint (product_id port)) \<and>
           FindStringKey device kSerialNumberKey \<noteq> None \<and>
           FindStringKey device kSerialNumberKey = serial_number port \<and>
           (pl = OS_MAC \<longrightarrow>
              FindStringKey device kUsbDriverKey \<noteq> None \<and>
              FindStringKey device kUsbDriverKey = usb_driver_name port))"

definition in_ephemeral_ports :: "SerialChooserContext \<Rightarrow> origin \<Rightarrow> UnguessableToken \<Rightarrow> bool" where
  "in_ephemeral_ports s origin t =
     (case ephemeral_ports s origin of None \<Rightarrow> False | Some ports \<Rightarrow> t \<in> ports)"

text \<open>The name stored under \<^verbatim>\<open>kPortNameKey\<close>: the display name when there is a non-empty
  one, the name of the path otherwise.\<close>

definition port_name :: "SerialPortInfo \<Rightarrow> string" where
  "port_name port =
     (case display_name port of
        None \<Rightarrow> LossyDisplayName (path port)
      | Some n \<Rightarrow> if n = [] then LossyDisplayName (path port) else n)"

subsection \<open>Example values\<close>

definition widget_port :: SerialPortInfo where
  "widget_port =
     \<lparr>token = \<lparr>high = 1, low = 2\<rparr>, path = ''/dev/ttyUSB0'',
      display_name = Some ''Widget Adapter'', device_instance_id = ''USB-1234-5678-ABC123'',
      has_vendor_id = True, vendor_id = 0x1234, has_product_id = True, product_id = 0x5678,
      serial_number = Some ''ABC123'', usb_driver_name = Some ''AppleUSBFTDI''\<rparr>"

definition nameless_port :: SerialPortInfo where
  "nameless_port =
     \<lparr>token = \<lparr>high = 3, low = 4\<rparr>, path = ''/dev/ttyUSB1'',
      display_name = None, device_instance_id = ''USB-1234-5678-XYZ789'',
      has_vendor_id = True, vendor_id = 0x1234, has_product_id = True, product_id = 0x5678,
      serial_number = Some ''XYZ789'', usb_driver_name = Some ''AppleUSBFTDI''\<rparr>"

definition empty_context :: SerialChooserContext where
  "empty_context =
     \<lparr>granted_objects = (\<lambda>origin. []), ephemeral_ports = Map.empty, port_info = Map.empty,
      port_observer_list = [], observer_calls = [], port_manager = False,
      client_receiver = False\<rparr>"

text \<open>A stored record that holds a name and none of the identity fields.\<close>

definition foreign_record :: dict where
  "foreign_record = [kPortNameKey \<mapsto> StringValue ''Widget Adapter'']"

text \<open>A context whose durable collection holds, for every origin, that record followed by
  the record of \<open>widget_port\<close>.\<close>

definition foreign_first_context :: SerialChooserContext where
  "foreign_first_context =
     empty_context\<lparr>granted_objects :=
       (\<lambda>origin. [foreign_record, PortInfoToValue OS_OTHER widget_port])\<rparr>"

section \<open>Properties\<close>

subsection \<open>Base64 round trip\<close>

lemma length_kBase64Chars: "length kBase64Chars = 64"
  by (simp add: kBase64Chars_def)

lemma distinct_kBase64Chars: "distinct kBase64Chars"
  by (simp add: kBase64Chars_def)

lemma kPad_notin_kBase64Chars: "kPad \<notin> set kBase64Chars"
  by (simp add: kBase64Chars_def kPad_def)

lemma b64_val_b64_char: "n < 64 \<Longrightarrow> b64_val (b64_char n) = Some n"
  unfolding b64_val_def b64_char_def
  using map_of_zip_nth [of kBase64Chars "[0..<64]" n]
  by (simp add: length_kBase64Chars distinct_kBase64Chars)

lemma b64_char_not_pad: "n < 64 \<Longrightarrow> b64_char n \<noteq> kPad"
proof
  assume n: "n < 64" and eq: "b64_char n = kPad"
  from n have "kBase64Chars ! n \<in> set kBase64Chars"
    by (intro nth_mem) (simp add: length_kBase64Chars)
  with eq kPad_notin_kBase64Chars show False by (simp add: b64_char_def)
qed

lemma sextets_recombine:
  fixes n :: nat
  shows "((n div 262144 * 64 + n div 4096 mod 64) * 64 + n div 64 mod 64) * 64 + n mod 64 = n"
proof -
  have 1: "n div 262144 * 64 + n div 4096 mod 64 = n div 4096"
    using div_mult_mod_eq [of "n div 4096" 64] by (simp add: div_mult2_eq [symmetric])
  have 2: "n div 4096 * 64 + n div 64 mod 64 = n div 64"
    using div_mult_mod_eq [of "n div 64" 64] by (simp add: div_mult2_eq [symmetric])
  show ?thesis
    by (simp only: 1 2 div_mult_mod_eq)
qed

lemma split_three_bytes:
  fixes a b c :: nat
  assumes "a < 256" "b < 256" "c < 256"
  shows "(a * 65536 + b * 256 + c) div 65536 = a"
    and "(a * 65536 + b * 256 + c) div 256 mod 256 = b"
    and "(a * 65536 + b * 256 + c) mod 256 = c"
proof -
  show "(a * 65536 + b * 256 + c) div 65536 = a"
    using assms by simp
  have "(a * 65536 + b * 256 + c) div 256 = a * 256 + b"
    using assms by simp
  then show "(a * 65536 + b * 256 + c) div 256 mod 256 = b"
    using assms by simp
  have "a * 65536 + b * 256 + c = (a * 256 + b) * 256 + c" by simp
  then show "(a * 65536 + b * 256 + c) mod 256 = c"
    using assms by (simp only: mod_mult_self3 mod_less)
qed

lemma group_bytes_sextets:
  "group_bytes (n div 262144) (n div 4096 mod 64) (n div 64 mod 64) (n mod 64) = triple_bytes n"
  by (simp only: group_bytes_def sextets_recombine)

lemma unat_byte_less: "unat (a :: byte) < 256"
  using unsigned_less [of a, where ?'a = nat] by simp

lemma triple_bytes_3:
  fixes a b c :: byte
  shows "triple_bytes (unat a * 65536 + unat b * 256 + unat c) = [a, b, c]"
  by (simp only: triple_bytes_def split_three_bytes [OF unat_byte_less unat_byte_less unat_byte_less])
     simp

lemma group_bound:
  fixes a b c :: byte
  shows "unat a * 65536 + unat b * 256 + unat c < 16777216"
  using unat_byte_less [of a] unat_byte_less [of b] unat_byte_less [of c] by linarith

lemma decode_chunks_group:
  assumes "n < 16777216"
  shows "decode_chunks (group_chars n @ rest) =
           (case decode_chunks rest of None \<Rightarrow> None | Some bs \<Rightarrow> Some (triple_bytes n @ bs))"
proof -
  from assms have "n div 262144 < 64" by simp
  then show ?thesis
    by (simp add: group_chars_def b64_val_b64_char group_bytes_sextets split: option.split)
qed

lemma decode_chunks_group3:
  fixes a b c :: byte
  shows "decode_chunks (group_chars (unat a * 65536 + unat b * 256 + unat c) @ rest) =
           (case decode_chunks rest of None \<Rightarrow> None | Some bs \<Rightarrow> Some (a # b # c # bs))"
  by (simp add: decode_chunks_group [OF group_bound] triple_bytes_3 split: option.split)

lemma decode_chunks_group2:
  fixes a b :: byte
  shows "decode_chunks (take 3 (group_chars (unat a * 65536 + unat b * 256))) = Some [a, b]"
proof -
  let ?n = "unat a * 65536 + unat b * 256"
  have n: "?n < 16777216" using group_bound [of a b 0] by simp
  then have v0: "?n div 262144 < 64" by simp
  have "?n = (unat a * 1024 + unat b * 4) * 64" by simp
  then have m: "?n mod 64 = 0" by (simp only: mod_mult_self2_is_0)
  have "group_bytes (?n div 262144) (?n div 4096 mod 64) (?n div 64 mod 64) 0 = triple_bytes ?n"
    using group_bytes_sextets [of ?n] by (simp only: m)
  also have "\<dots> = [a, b, 0]"
    using triple_bytes_3 [of a b 0] by simp
  finally show ?thesis
    using v0 by (simp add: group_chars_def b64_val_b64_char)
qed

lemma decode_chunks_group1:
  fixes a :: byte
  shows "decode_chunks (take 2 (group_chars (unat a * 65536))) = Some [a]"
proof -
  let ?n = "unat a * 65536"
  have n: "?n < 16777216" using group_bound [of a 0 0] by simp
  then have v0: "?n div 262144 < 64" by simp
  have "?n = (unat a * 1024) * 64" by simp
  then have m1: "?n mod 64 = 0" by (simp only: mod_mult_self2_is_0)
  have "?n div 64 = (unat a * 16) * 64" by simp
  then have m2: "?n div 64 mod 64 = 0" by (simp only: mod_mult_self2_is_0)
  have "group_bytes (?n div 262144) (?n div 4096 mod 64) 0 0 = triple_bytes ?n"
    using group_bytes_sextets [of ?n] by (simp only: m1 m2)
  also have "\<dots> = [a, 0, 0]"
    using triple_bytes_3 [of a 0 0] by simp
  finally show ?thesis
    using v0 by (simp add: group_chars_def b64_val_b64_char)
qed

lemma length_Base64Encode: "length (Base64Encode bs) = 4 * ((length bs + 2) div 3)"
proof (induction bs rule: Base64Encode.induct)
  case (1 a b c rest)
  have "length (Base64Encode (a # b # c # rest)) = 4 + length (Base64Encode rest)"
    by (simp add: group_chars_def)
  also have "\<dots> = 4 + 4 * ((length rest + 2) div 3)"
    using 1 by simp
  also have "\<dots> = 4 * ((length (a # b # c # rest) + 2) div 3)"
  proof -
    have "(3 + (length rest + 2)) div 3 = (length rest + 2) div 3 + 1"
      by (simp only: div_add_self1)
    moreover have "length (a # b # c # rest) + 2 = 3 + (length rest + 2)"
      by simp
    ultimately show ?thesis
      by (simp only:) simp
  qed
  finally show ?case .
qed (simp_all add: group_chars_def)

lemma strip_pad_append: "2 \<le> length y \<Longrightarrow> strip_pad (x @ y) = x @ strip_pad y"
proof -
  assume "2 \<le> length y"
  then have "y \<noteq> []" "butlast y \<noteq> []"
    by (auto simp: butlast_conv_take)
  then show ?thesis
    by (simp add: strip_pad_def butlast_append)
qed

lemma strip_pad_group: "n < 16777216 \<Longrightarrow> strip_pad (group_chars n) = group_chars n"
  by (simp add: strip_pad_def group_chars_def b64_char_not_pad)

lemma strip_pad_group2:
  "n < 16777216 \<Longrightarrow> strip_pad (take 3 (group_chars n) @ [kPad]) = take 3 (group_chars n)"
  by (simp add: strip_pad_def group_chars_def b64_char_not_pad)

lemma strip_pad_group1:
  "n < 16777216 \<Longrightarrow> strip_pad (take 2 (group_chars n) @ [kPad, kPad]) = take 2 (group_chars n)"
  by (simp add: strip_pad_def group_chars_def b64_char_not_pad)

lemma decode_chunks_strip_encode:
  "bs \<noteq> [] \<Longrightarrow> decode_chunks (strip_pad (Base64Encode bs)) = Some bs"
proof (induction bs rule: Base64Encode.induct)
  case (1 a b c rest)
  show ?case
  proof (cases "rest = []")
    case True
    then show ?thesis
      using decode_chunks_group3 [of a b c "[]"]
      by (simp add: strip_pad_group [OF group_bound])
  next
    case False
    then have "2 \<le> length (Base64Encode rest)"
      by (cases rest) (simp_all add: length_Base64Encode)
    then have "strip_pad (Base64Encode (a # b # c # rest)) =
                 group_chars (unat a * 65536 + unat b * 256 + unat c) @ strip_pad (Base64Encode rest)"
      by (simp add: strip_pad_append)
    with 1 False show ?thesis
      by (simp add: decode_chunks_group3)
  qed
next
  case (2 a b)
  show ?case
    using strip_pad_group2 [of "unat a * 65536 + unat b * 256"] group_bound [of a b 0]
    by (simp add: decode_chunks_group2)
next
  case (3 a)
  show ?case
    using strip_pad_group1 [of "unat a * 65536"] group_bound [of a 0 0]
    by (simp add: decode_chunks_group1)
next
  case 4
  then show ?case by simp
qed

lemma Base64Decode_Base64Encode: "Base64Decode (Base64Encode bs) = Some bs"
proof (cases "bs = []")
  case True
  then show ?thesis by (simp add: Base64Decode_def)
next
  case False
  then obtain b bs' where bs: "bs = b # bs'" by (cases bs) auto
  have len: "length (Base64Encode bs) = 4 * ((length bs + 2) div 3)"
    by (rule length_Base64Encode)
  have "1 \<le> (length bs + 2) div 3" using bs by simp
  with len have "4 \<le> length (Base64Encode bs)" "length (Base64Encode bs) mod 4 = 0"
    by simp_all
  then show ?thesis
    using False by (auto simp: Base64Decode_def decode_chunks_strip_encode)
qed

subsection \<open>Token codec\<close>

lemma length_uint64_bytes: "length (uint64_bytes w) = 8"
  by (simp add: uint64_bytes_def)

lemma bytes_uint64_low_bytes: "bytes_uint64 (low_bytes k w) = take_bit (8 * k) w"
proof (induction k arbitrary: w)
  case 0
  show ?case by simp
next
  case (Suc k)
  have "ucast (ucast w :: byte) OR push_bit 8 (take_bit (8 * k) (drop_bit 8 w)) =
          take_bit (8 * Suc k) w"
    by (rule bit_word_eqI) (auto simp: bit_simps)
  with Suc show ?case by simp
qed

lemma uint64_bytes_low_bytes:
  "uint64_bytes w = low_bytes (Suc (Suc (Suc (Suc (Suc (Suc (Suc (Suc 0)))))))) w"
  by (simp add: uint64_bytes_def)

lemma bytes_uint64_uint64_bytes: "bytes_uint64 (uint64_bytes w) = w"
  using take_bit_length_eq [of w]
  by (simp only: uint64_bytes_low_bytes bytes_uint64_low_bytes) simp

lemma Base64Decode_EncodeToken:
  "Base64Decode (EncodeToken t) = Some (uint64_bytes (high t) @ uint64_bytes (low t))"
  by (simp add: EncodeToken_def Base64Decode_Base64Encode)

lemma DecodeToken_EncodeToken: "DecodeToken (EncodeToken t) = t"
  by (simp add: DecodeToken_def Base64Decode_EncodeToken length_uint64_bytes
      bytes_uint64_uint64_bytes Deserialize_def)

lemma length_EncodeToken: "length (EncodeToken t) = 24"
  by (simp add: EncodeToken_def length_Base64Encode length_uint64_bytes)

lemma EncodeToken_1_2: "EncodeToken \<lparr>high = 1, low = 2\<rparr> = ''AQAAAAAAAAACAAAAAAAAAA==''"
  by (simp add: EncodeToken_def uint64_bytes_def group_chars_def b64_char_def kBase64Chars_def
      kPad_def)

lemma EncodeToken_0_0: "EncodeToken \<lparr>high = 0, low = 0\<rparr> = ''AAAAAAAAAAAAAAAAAAAAAA==''"
  by (simp add: EncodeToken_def uint64_bytes_def group_chars_def b64_char_def kBase64Chars_def
      kPad_def)

text \<open>
  C6. For every token \<open>t\<close>, decoding the encoding of \<open>t\<close> gives \<open>t\<close> back, and the
  encoding, the base64 text of the sixteen bytes of the two 64-bit halves, has 24
  characters whatever the value of the token.
\<close>

theorem C6_decode_encode_roundtrip:
  "DecodeToken (EncodeToken t) = t \<and> length (EncodeToken t) = 24"
  by (simp add: DecodeToken_EncodeToken length_EncodeToken)

theorem C6_decode_encode_roundtrip_witness:
  "EncodeToken \<lparr>high = 1, low = 2\<rparr> = ''AQAAAAAAAAACAAAAAAAAAA=='' \<and>
   DecodeToken ''AQAAAAAAAAACAAAAAAAAAA=='' = \<lparr>high = 1, low = 2\<rparr> \<and>
   length ''AQAAAAAAAAACAAAAAAAAAA=='' = 24"
proof -
  have "DecodeToken (EncodeToken \<lparr>high = 1, low = 2\<rparr>) = \<lparr>high = 1, low = 2\<rparr> \<and>
        length (EncodeToken \<lparr>high = 1, low = 2\<rparr>) = 24"
    by (rule C6_decode_encode_roundtrip)
  then show ?thesis
    by (simp add: EncodeToken_1_2)
qed

text \<open>
  C7, as stated, fails: the sentinel that \<^verbatim>\<open>DecodeToken\<close> returns for a malformed input is
  the default-constructed token, and the well-formed encoding of sixteen zero bytes
  decodes to the same value. The input \<open>''?''\<close> is not base64; the second input is the
  encoding of the all-zero token.
\<close>

theorem C7_sentinel_counterexample:
  "Base64Decode ''?'' = None \<and>
   EncodeToken \<lparr>high = 0, low = 0\<rparr> = ''AAAAAAAAAAAAAAAAAAAAAA=='' \<and>
   DecodeToken ''?'' = DecodeToken ''AAAAAAAAAAAAAAAAAAAAAA==''"
proof -
  have 1: "Base64Decode ''?'' = None"
    by (simp add: Base64Decode_def)
  then have 2: "DecodeToken ''?'' = \<lparr>high = 0, low = 0\<rparr>"
    by (simp add: DecodeToken_def UnguessableToken_empty_def)
  have "DecodeToken (EncodeToken \<lparr>high = 0, low = 0\<rparr>) = \<lparr>high = 0, low = 0\<rparr>"
    by (rule DecodeToken_EncodeToken)
  then have 3: "DecodeToken ''AAAAAAAAAAAAAAAAAAAAAA=='' = \<lparr>high = 0, low = 0\<rparr>"
    by (simp only: EncodeToken_0_0)
  from 1 2 3 show ?thesis
    by (simp add: EncodeToken_0_0)
qed

text \<open>
  C7, amended. For every input that is not well-formed base64, or whose decoded length is
  not sixteen bytes, \<^verbatim>\<open>DecodeToken\<close> returns the empty token, as a value and without a
  fault. The empty token is the token whose two halves are zero, so the sentinel differs
  from the decoding of the encoding of every token other than the all-zero one.
\<close>

theorem C7_decode_failure_sentinel:
  "((Base64Decode input = None \<or>
     (\<exists>buffer. Base64Decode input = Some buffer \<and> length buffer \<noteq> 16)) \<longrightarrow>
    DecodeToken input = UnguessableToken_empty) \<and>
   UnguessableToken_empty = \<lparr>high = 0, low = 0\<rparr> \<and>
   (t \<noteq> \<lparr>high = 0, low = 0\<rparr> \<longrightarrow> DecodeToken (EncodeToken t) \<noteq> UnguessableToken_empty)"
proof (intro conjI impI)
  assume "Base64Decode input = None \<or>
          (\<exists>buffer. Base64Decode input = Some buffer \<and> length buffer \<noteq> 16)"
  then show "DecodeToken input = UnguessableToken_empty"
    by (auto simp: DecodeToken_def)
next
  show "UnguessableToken_empty = \<lparr>high = 0, low = 0\<rparr>"
    by (simp add: UnguessableToken_empty_def)
next
  assume "t \<noteq> \<lparr>high = 0, low = 0\<rparr>"
  then show "DecodeToken (EncodeToken t) \<noteq> UnguessableToken_empty"
    by (simp add: DecodeToken_EncodeToken UnguessableToken_empty_def)
qed

theorem C7_decode_failure_sentinel_witness:
  "Base64Decode ''?'' = None \<and>
   DecodeToken ''?'' = UnguessableToken_empty \<and>
   \<lparr>high = 1, low = 2\<rparr> \<noteq> \<lparr>high = 0, low = (0 :: 64 word)\<rparr> \<and>
   DecodeToken (EncodeToken \<lparr>high = 1, low = 2\<rparr>) \<noteq> UnguessableToken_empty"
proof -
  have 1: "Base64Decode ''?'' = None"
    by (simp add: Base64Decode_def)
  have 2: "\<lparr>high = 1, low = 2\<rparr> \<noteq> \<lparr>high = 0, low = (0 :: 64 word)\<rparr>"
    by simp
  from 1 2 show ?thesis
    using C7_decode_failure_sentinel [of "''?''" "\<lparr>high = 1, low = 2\<rparr>"]
    by simp
qed

subsection \<open>Eligibility and serialization\<close>

lemma CanStorePersistentEntry_fields:
  assumes "CanStorePersistentEntry pl port"
  shows "display_name port \<noteq> None" and "display_name port \<noteq> Some []"
    and "pl = OS_WIN \<Longrightarrow> device_instance_id port \<noteq> []"
    and "pl \<noteq> OS_WIN \<Longrightarrow> has_vendor_id port \<and> has_product_id port \<and>
           serial_number port \<noteq> None \<and> serial_number port \<noteq> Some []"
    and "pl = OS_MAC \<Longrightarrow> usb_driver_name port \<noteq> None \<and> usb_driver_name port \<noteq> Some []"
  using assms by (auto simp: CanStorePersistentEntry_def split: if_splits)

text \<open>
  C2. \<^verbatim>\<open>CanStorePersistentEntry\<close> is a function of the platform and the descriptor alone.
  It is false whenever the display name is absent or empty. For a descriptor with a
  non-empty display name: on Windows it holds exactly when the device instance id is
  non-empty; on the other platforms exactly when vendor id and product id are present and
  the serial number is present and non-empty; on macOS exactly when, in addition, the USB
  driver name is present and non-empty.
\<close>

theorem C2_CanStorePersistentEntry:
  "((display_name port = None \<or> display_name port = Some []) \<longrightarrow>
      \<not> CanStorePersistentEntry pl port) \<and>
   (display_name port \<noteq> None \<and> display_name port \<noteq> Some [] \<longrightarrow>
      (CanStorePersistentEntry OS_WIN port \<longleftrightarrow> device_instance_id port \<noteq> []) \<and>
      (CanStorePersistentEntry OS_OTHER port \<longleftrightarrow>
         has_vendor_id port \<and> has_product_id port \<and>
         serial_number port \<noteq> None \<and> serial_number port \<noteq> Some []) \<and>
      (CanStorePersistentEntry OS_MAC port \<longleftrightarrow>
         has_vendor_id port \<and> has_product_id port \<and>
         serial_number port \<noteq> None \<and> serial_number port \<noteq> Some [] \<and>
         usb_driver_name port \<noteq> None \<and> usb_driver_name port \<noteq> Some []))"
  by (auto simp: CanStorePersistentEntry_def)

theorem C2_CanStorePersistentEntry_witness:
  "display_name nameless_port = None \<and>
   \<not> CanStorePersistentEntry OS_WIN nameless_port \<and>
   \<not> CanStorePersistentEntry OS_MAC nameless_port \<and>
   \<not> CanStorePersistentEntry OS_OTHER nameless_port \<and>
   display_name widget_port \<noteq> None \<and> display_name widget_port \<noteq> Some [] \<and>
   CanStorePersistentEntry OS_WIN widget_port \<and>
   CanStorePersistentEntry OS_OTHER widget_port \<and>
   CanStorePersistentEntry OS_MAC widget_port \<and>
   \<not> CanStorePersistentEntry OS_MAC (widget_port\<lparr>usb_driver_name := None\<rparr>) \<and>
   CanStorePersistentEntry OS_OTHER (widget_port\<lparr>usb_driver_name := None\<rparr>)"
  using C2_CanStorePersistentEntry [of nameless_port OS_WIN]
        C2_CanStorePersistentEntry [of nameless_port OS_MAC]
        C2_CanStorePersistentEntry [of nameless_port OS_OTHER]
        C2_CanStorePersistentEntry [of widget_port OS_WIN]
        C2_CanStorePersistentEntry [of "widget_port\<lparr>usb_driver_name := None\<rparr>" OS_WIN]
  by (simp add: nameless_port_def widget_port_def)

lemma port_name_eq:
  "(if display_name port \<noteq> None \<and> display_name port \<noteq> Some []
    then the (display_name port) else LossyDisplayName (path port)) = port_name port"
  by (auto simp: port_name_def split: option.splits)

lemma PortInfoToValue_ephemeral:
  "\<not> CanStorePersistentEntry pl port \<Longrightarrow>
   PortInfoToValue pl port =
     [kPortNameKey \<mapsto> StringValue (port_name port),
      kTokenKey \<mapsto> StringValue (EncodeToken (token port))]"
  by (simp only: PortInfoToValue_def port_name_eq Let_def) simp

lemma PortInfoToValue_persistent:
  assumes "CanStorePersistentEntry pl port"
  shows "PortInfoToValue pl port =
     (case pl of
        OS_WIN \<Rightarrow>
          [kPortNameKey \<mapsto> StringValue (port_name port),
           kDeviceInstanceIdKey \<mapsto> StringValue (device_instance_id port)]
      | OS_OTHER \<Rightarrow>
          [kPortNameKey \<mapsto> StringValue (port_name port),
           kVendorIdKey \<mapsto> IntValue (uint (vendor_id port)),
           kProductIdKey \<mapsto> IntValue (uint (product_id port)),
           kSerialNumberKey \<mapsto> StringValue (the (serial_number port))]
      | OS_MAC \<Rightarrow>
          [kPortNameKey \<mapsto> StringValue (port_name port),
           kVendorIdKey \<mapsto> IntValue (uint (vendor_id port)),
           kProductIdKey \<mapsto> IntValue (uint (product_id port)),
           kSerialNumberKey \<mapsto> StringValue (the (serial_number port)),
           kUsbDriverKey \<mapsto> StringValue (the (usb_driver_name port))])"
  using assms
  by (simp only: PortInfoToValue_def port_name_eq Let_def) (simp split: platform.split)

lemmas key_defs = kPortNameKey_def kTokenKey_def kDeviceInstanceIdKey_def kVendorIdKey_def
  kProductIdKey_def kSerialNumberKey_def kUsbDriverKey_def

text \<open>
  C9, as stated, fails: for a descriptor that cannot be stored persistently the
  serializer emits the name key besides the token key. The descriptor \<open>nameless_port\<close>
  has no display name; its record holds the name of its path under \<^verbatim>\<open>kPortNameKey\<close>.
\<close>

theorem C9_name_key_counterexample:
  "\<not> CanStorePersistentEntry OS_OTHER nameless_port \<and>
   PortInfoToValue OS_OTHER nameless_port kPortNameKey = Some (StringValue ''/dev/ttyUSB1'') \<and>
   dom (PortInfoToValue OS_OTHER nameless_port) \<noteq> {kTokenKey}"
proof -
  have 1: "\<not> CanStorePersistentEntry OS_OTHER nameless_port"
    by (simp add: CanStorePersistentEntry_def nameless_port_def)
  have 2: "PortInfoToValue OS_OTHER nameless_port kPortNameKey = Some (StringValue ''/dev/ttyUSB1'')"
    unfolding PortInfoToValue_ephemeral [OF 1]
    by (simp add: port_name_def nameless_port_def LossyDisplayName_def key_defs)
  then have "kPortNameKey \<in> dom (PortInfoToValue OS_OTHER nameless_port)"
    by blast
  moreover have "kPortNameKey \<notin> {kTokenKey}"
    by (simp add: key_defs)
  ultimately have 3: "dom (PortInfoToValue OS_OTHER nameless_port) \<noteq> {kTokenKey}"
    by metis
  from 1 2 3 show ?thesis by simp
qed

text \<open>
  C9, amended. For a descriptor for which \<^verbatim>\<open>CanStorePersistentEntry\<close> is false,
  \<^verbatim>\<open>PortInfoToValue\<close> emits exactly the name (the display name when it is present and
  non-empty, the name of the path otherwise) and the encoded token, and no other key. For
  a descriptor that can be stored it emits the display name, no token, and the identity
  attributes of the platform: the device instance id on Windows; vendor id, product id and
  serial number elsewhere; on macOS the USB driver name as well.
\<close>

theorem C9_PortInfoToValue:
  "(\<not> CanStorePersistentEntry pl port \<longrightarrow>
      PortInfoToValue pl port =
        [kPortNameKey \<mapsto> StringValue (port_name port),
         kTokenKey \<mapsto> StringValue (EncodeToken (token port))] \<and>
      dom (PortInfoToValue pl port) = {kPortNameKey, kTokenKey}) \<and>
   (CanStorePersistentEntry pl port \<longrightarrow>
      display_name port = Some (port_name port) \<and>
      PortInfoToValue pl port kPortNameKey = Some (StringValue (port_name port)) \<and>
      PortInfoToValue pl port kTokenKey = None \<and>
      (pl = OS_WIN \<longrightarrow>
         PortInfoToValue pl port kDeviceInstanceIdKey = Some (StringValue (device_instance_id port)) \<and>
         dom (PortInfoToValue pl port) = {kPortNameKey, kDeviceInstanceIdKey}) \<and>
      (pl \<noteq> OS_WIN \<longrightarrow>
         PortInfoToValue pl port kVendorIdKey = Some (IntValue (uint (vendor_id port))) \<and>
         PortInfoToValue pl port kProductIdKey = Some (IntValue (uint (product_id port))) \<and>
         map_option StringValue (serial_number port) = PortInfoToValue pl port kSerialNumberKey) \<and>
      (pl = OS_OTHER \<longrightarrow>
         dom (PortInfoToValue pl port) =
           {kPortNameKey, kVendorIdKey, kProductIdKey, kSerialNumberKey}) \<and>
      (pl = OS_MAC \<longrightarrow>
         map_option StringValue (usb_driver_name port) = PortInfoToValue pl port kUsbDriverKey \<and>
         dom (PortInfoToValue pl port) =
           {kPortNameKey, kVendorIdKey, kProductIdKey, kSerialNumberKey, kUsbDriverKey}))"
proof (intro conjI impI)
  assume n: "\<not> CanStorePersistentEntry pl port"
  show "PortInfoToValue pl port =
        [kPortNameKey \<mapsto> StringValue (port_name port),
         kTokenKey \<mapsto> StringValue (EncodeToken (token port))]"
    by (rule PortInfoToValue_ephemeral [OF n])
  then show "dom (PortInfoToValue pl port) = {kPortNameKey, kTokenKey}"
    by auto
next
  assume c: "CanStorePersistentEntry pl port"
  note f = CanStorePersistentEntry_fields [OF c]
  note v = PortInfoToValue_persistent [OF c]
  from f(1,2) show dn: "display_name port = Some (port_name port)"
    by (auto simp: port_name_def)
  show "PortInfoToValue pl port kPortNameKey = Some (StringValue (port_name port))"
    by (simp add: v key_defs split: platform.split)
  show "PortInfoToValue pl port kTokenKey = None"
    by (simp add: v key_defs split: platform.split)
  {
    assume w: "pl = OS_WIN"
    show "PortInfoToValue pl port kDeviceInstanceIdKey = Some (StringValue (device_instance_id port))"
      unfolding v by (simp add: w)
    show "dom (PortInfoToValue pl port) = {kPortNameKey, kDeviceInstanceIdKey}"
      unfolding v by (auto simp: w)
  }
  {
    assume nw: "pl \<noteq> OS_WIN"
    show "PortInfoToValue pl port kVendorIdKey = Some (IntValue (uint (vendor_id port)))"
      using nw by (simp add: v key_defs split: platform.split)
    show "PortInfoToValue pl port kProductIdKey = Some (IntValue (uint (product_id port)))"
      using nw by (simp add: v key_defs split: platform.split)
    show "map_option StringValue (serial_number port) = PortInfoToValue pl port kSerialNumberKey"
      using nw f(4) by (auto simp: v key_defs split: platform.split)
  }
  {
    assume o: "pl = OS_OTHER"
    show "dom (PortInfoToValue pl port) =
           {kPortNameKey, kVendorIdKey, kProductIdKey, kSerialNumberKey}"
      unfolding v by (auto simp: o)
  }
  {
    assume m: "pl = OS_MAC"
    show "map_option StringValue (usb_driver_name port) = PortInfoToValue pl port kUsbDriverKey"
      using f(5) m unfolding v by auto
    show "dom (PortInfoToValue pl port) =
           {kPortNameKey, kVendorIdKey, kProductIdKey, kSerialNumberKey, kUsbDriverKey}"
      unfolding v by (auto simp: m)
  }
qed

theorem C9_PortInfoToValue_witness:
  "\<not> CanStorePersistentEntry OS_OTHER nameless_port \<and>
   PortInfoToValue OS_OTHER nameless_port =
     [kPortNameKey \<mapsto> StringValue ''/dev/ttyUSB1'',
      kTokenKey \<mapsto> StringValue (EncodeToken \<lparr>high = 3, low = 4\<rparr>)] \<and>
   CanStorePersistentEntry OS_MAC widget_port \<and>
   PortInfoToValue OS_MAC widget_port kPortNameKey = Some (StringValue ''Widget Adapter'') \<and>
   PortInfoToValue OS_MAC widget_port kTokenKey = None \<and>
   PortInfoToValue OS_MAC widget_port kVendorIdKey = Some (IntValue 4660) \<and>
   PortInfoToValue OS_MAC widget_port kUsbDriverKey = Some (StringValue ''AppleUSBFTDI'')"
proof -
  have 1: "\<not> CanStorePersistentEntry OS_OTHER nameless_port"
    by (simp add: CanStorePersistentEntry_def nameless_port_def)
  have 2: "CanStorePersistentEntry OS_MAC widget_port"
    by (simp add: CanStorePersistentEntry_def widget_port_def)
  have 3: "port_name nameless_port = ''/dev/ttyUSB1''" "token nameless_port = \<lparr>high = 3, low = 4\<rparr>"
    "port_name widget_port = ''Widget Adapter''" "uint (vendor_id widget_port) = 4660"
    "usb_driver_name widget_port = Some ''AppleUSBFTDI''"
    by (simp_all add: port_name_def nameless_port_def widget_port_def LossyDisplayName_def)
  show ?thesis
    using C9_PortInfoToValue [of OS_OTHER nameless_port] C9_PortInfoToValue [of OS_MAC widget_port]
      1 2 3
    by simp
qed

subsection \<open>Granting\<close>

text \<open>
  C3. \<^verbatim>\<open>GrantPortPermission\<close> inserts the serialized descriptor into \<^verbatim>\<open>port_info_\<close> under
  its token (an entry already there for the token is kept, as \<^verbatim>\<open>std::map::insert\<close> does),
  after which the token is a key of the map. It then writes one kind of grant: when
  \<^verbatim>\<open>CanStorePersistentEntry\<close> holds, the durable collection is what the browser context's
  write yields for the origin and the serialized descriptor, and the ephemeral sets are
  unchanged; otherwise the durable collection is unchanged and the token is inserted into
  the ephemeral set of the origin. This holds for every write of the browser context.
\<close>

theorem C3_GrantPortPermission:
  "port_info (GrantPortPermission pl grant_object origin port s) =
     (case port_info s (token port) of
        Some old \<Rightarrow> port_info s
      | None \<Rightarrow> (port_info s)(token port \<mapsto> PortInfoToValue pl port)) \<and>
   token port \<in> dom (port_info (GrantPortPermission pl grant_object origin port s)) \<and>
   (CanStorePersistentEntry pl port \<longrightarrow>
      granted_objects (GrantPortPermission pl grant_object origin port s) =
        grant_object origin (PortInfoToValue pl port) (granted_objects s) \<and>
      ephemeral_ports (GrantPortPermission pl grant_object origin port s) = ephemeral_ports s) \<and>
   (\<not> CanStorePersistentEntry pl port \<longrightarrow>
      granted_objects (GrantPortPermission pl grant_object origin port s) = granted_objects s \<and>
      ephemeral_ports (GrantPortPermission pl grant_object origin port s) =
        (ephemeral_ports s)(origin \<mapsto>
           insert (token port)
             (case ephemeral_ports s origin of None \<Rightarrow> {} | Some ports \<Rightarrow> ports)))"
  by (auto simp: GrantPortPermission_def Let_def split: option.splits)

theorem C3_GrantPortPermission_witness:
  "CanStorePersistentEntry OS_OTHER widget_port \<and>
   port_info (GrantPortPermission OS_OTHER GrantObjectPermission ''https://a.example'' widget_port
                empty_context) \<lparr>high = 1, low = 2\<rparr> = Some (PortInfoToValue OS_OTHER widget_port) \<and>
   granted_objects (GrantPortPermission OS_OTHER GrantObjectPermission ''https://a.example''
                      widget_port empty_context) ''https://a.example'' =
     [PortInfoToValue OS_OTHER widget_port] \<and>
   ephemeral_ports (GrantPortPermission OS_OTHER GrantObjectPermission ''https://a.example''
                      widget_port empty_context) = Map.empty \<and>
   \<not> CanStorePersistentEntry OS_OTHER nameless_port \<and>
   granted_objects (GrantPortPermission OS_OTHER GrantObjectPermission ''https://a.example''
                      nameless_port empty_context) ''https://a.example'' = [] \<and>
   ephemeral_ports (GrantPortPermission OS_OTHER GrantObjectPermission ''https://a.example''
                      nameless_port empty_context) ''https://a.example'' =
     Some {\<lparr>high = 3, low = 4\<rparr>}"
proof -
  have 1: "\<not> CanStorePersistentEntry OS_OTHER nameless_port"
    by (simp add: CanStorePersistentEntry_def nameless_port_def)
  have 2: "CanStorePersistentEntry OS_OTHER widget_port"
    by (simp add: CanStorePersistentEntry_def widget_port_def)
  have 3: "token nameless_port = \<lparr>high = 3, low = 4\<rparr>" "token widget_port = \<lparr>high = 1, low = 2\<rparr>"
    by (simp_all add: nameless_port_def widget_port_def)
  show ?thesis
    using C3_GrantPortPermission [of OS_OTHER GrantObjectPermission "''https://a.example''"
            widget_port empty_context]
          C3_GrantPortPermission [of OS_OTHER GrantObjectPermission "''https://a.example''"
            nameless_port empty_context] 1 2 3
    by (simp add: empty_context_def GrantObjectPermission_def)
qed

subsection \<open>Checking\<close>

lemma device_matches_True_iff:
  "device_matches pl port device = Inr True \<longleftrightarrow> fields_equal pl port device"
  by (cases pl) (auto simp: device_matches_def fields_equal_def split: option.splits)

lemma device_matches_expected:
  "has_expected_fields pl device \<Longrightarrow>
   device_matches pl port device = Inr (fields_equal pl port device)"
  by (cases pl) (auto simp: device_matches_def fields_equal_def has_expected_fields_def
      split: option.splits)

lemma scan_granted_first_match:
  assumes "\<forall>e\<in>set pre. device_matches pl port e = Inr False"
    and "device_matches pl port device = Inr True"
  shows "scan_granted pl port (pre @ device # post) = Inr True"
  using assms by (induction pre) simp_all

lemma scan_granted_TrueD:
  assumes "scan_granted pl port object_list = Inr True"
  shows "\<exists>pre device post. object_list = pre @ device # post \<and>
           (\<forall>e\<in>set pre. device_matches pl port e = Inr False) \<and>
           device_matches pl port device = Inr True"
  using assms
proof (induction object_list)
  case Nil
  then show ?case by simp
next
  case (Cons d ds)
  show ?case
  proof (cases "device_matches pl port d = Inr True")
    case True
    then have "d # ds = [] @ d # ds \<and>
           (\<forall>e\<in>set []. device_matches pl port e = Inr False) \<and>
           device_matches pl port d = Inr True" by simp
    then show ?thesis by (intro exI)
  next
    case False
    with Cons.prems have d: "device_matches pl port d = Inr False"
      and "scan_granted pl port ds = Inr True"
      by (auto split: sum.splits bool.splits)
    with Cons.IH obtain pre device post where *: "ds = pre @ device # post"
      "\<forall>e\<in>set pre. device_matches pl port e = Inr False"
      "device_matches pl port device = Inr True" by blast
    with d have "d # ds = (d # pre) @ device # post \<and>
           (\<forall>e\<in>set (d # pre). device_matches pl port e = Inr False) \<and>
           device_matches pl port device = Inr True" by simp
    then show ?thesis by (intro exI)
  qed
qed

lemma scan_granted_True_iff:
  "scan_granted pl port object_list = Inr True \<longleftrightarrow>
     (\<exists>pre device post. object_list = pre @ device # post \<and>
        (\<forall>e\<in>set pre. device_matches pl port e = Inr False) \<and>
        device_matches pl port device = Inr True)"
  using scan_granted_TrueD [of pl port object_list] scan_granted_first_match [of _ pl port]
  by blast

lemma scan_granted_expected:
  "\<forall>device\<in>set object_list. has_expected_fields pl device \<Longrightarrow>
   scan_granted pl port object_list =
     Inr (\<exists>device\<in>set object_list. fields_equal pl port device)"
  by (induction object_list) (auto simp: device_matches_expected split: bool.splits)

lemma HasPortPermission_eq:
  "HasPortPermission pl s origin port =
     (if in_ephemeral_ports s origin (token port) then Inr True
      else if \<not> CanStorePersistentEntry pl port then Inr False
      else scan_granted pl port (granted_objects s origin))"
  by (simp add: HasPortPermission_def in_ephemeral_ports_def)

lemmas example_defs = widget_port_def nameless_port_def empty_context_def foreign_record_def

lemmas lookup_defs = FindStringKey_def FindIntKey_def

text \<open>
  C1, as stated, fails: the loop dereferences what it looks up in a record before it
  compares, so a record without the fields stops the scan with a fault. In
  \<open>foreign_first_context\<close> the collection of the origin holds the record of \<open>widget_port\<close>,
  which matches, after \<open>foreign_record\<close>; \<open>widget_port\<close> can be stored persistently, and yet
  the check does not return true.
\<close>

theorem C1_record_after_fault_counterexample:
  "CanStorePersistentEntry OS_OTHER widget_port \<and>
   PortInfoToValue OS_OTHER widget_port \<in>
     set (granted_objects foreign_first_context ''https://a.example'') \<and>
   device_matches OS_OTHER widget_port (PortInfoToValue OS_OTHER widget_port) = Inr True \<and>
   HasPortPermission OS_OTHER foreign_first_context ''https://a.example'' widget_port =
     Inl NullDereference \<and>
   HasPortPermission OS_OTHER foreign_first_context ''https://a.example'' widget_port \<noteq>
     Inr True"
proof -
  have c: "CanStorePersistentEntry OS_OTHER widget_port"
    by (simp add: CanStorePersistentEntry_def widget_port_def)
  have g: "granted_objects foreign_first_context ''https://a.example'' =
             [foreign_record, PortInfoToValue OS_OTHER widget_port]"
    by (simp add: foreign_first_context_def empty_context_def)
  have e: "\<not> in_ephemeral_ports foreign_first_context ''https://a.example'' (token widget_port)"
    by (simp add: in_ephemeral_ports_def foreign_first_context_def empty_context_def)
  have v: "PortInfoToValue OS_OTHER widget_port =
             [kPortNameKey \<mapsto> StringValue ''Widget Adapter'', kVendorIdKey \<mapsto> IntValue 4660,
              kProductIdKey \<mapsto> IntValue 22136, kSerialNumberKey \<mapsto> StringValue ''ABC123'']"
    by (simp add: PortInfoToValue_def CanStorePersistentEntry_def widget_port_def Let_def)
  have m: "device_matches OS_OTHER widget_port (PortInfoToValue OS_OTHER widget_port) = Inr True"
    unfolding v
    by (simp add: device_matches_def lookup_defs key_defs widget_port_def)
  have "FindIntKey foreign_record kVendorIdKey = None"
    by (simp add: FindIntKey_def foreign_record_def key_defs)
  then have f: "device_matches OS_OTHER widget_port foreign_record = Inl NullDereference"
    by (simp add: device_matches_def)
  have h: "HasPortPermission OS_OTHER foreign_first_context ''https://a.example'' widget_port =
             Inl NullDereference"
    using c e f by (simp add: HasPortPermission_eq g)
  from c g m h show ?thesis by simp
qed

text \<open>
  C1, amended. \<^verbatim>\<open>HasPortPermission\<close> returns true exactly when the token of the descriptor
  is in the ephemeral set of the origin, or \<^verbatim>\<open>CanStorePersistentEntry\<close> holds and the scan
  of the origin's durable collection, in order, reaches a record that matches, every record
  before it having been compared and passed over. It returns false whenever the descriptor
  cannot be stored persistently and its token is not in the ephemeral set of the origin.
  When every record of the collection carries the fields the loop reads, the result is
  true if some record of the collection matches and false otherwise.
\<close>

theorem C1_HasPortPermission:
  "(HasPortPermission pl s origin port = Inr True \<longleftrightarrow>
      in_ephemeral_ports s origin (token port) \<or>
      (CanStorePersistentEntry pl port \<and>
       (\<exists>pre device post. granted_objects s origin = pre @ device # post \<and>
          (\<forall>e\<in>set pre. device_matches pl port e = Inr False) \<and>
          device_matches pl port device = Inr True))) \<and>
   (\<not> CanStorePersistentEntry pl port \<and> \<not> in_ephemeral_ports s origin (token port) \<longrightarrow>
      HasPortPermission pl s origin port = Inr False) \<and>
   ((\<forall>device\<in>set (granted_objects s origin). has_expected_fields pl device) \<longrightarrow>
      HasPortPermission pl s origin port =
        Inr (in_ephemeral_ports s origin (token port) \<or>
             (CanStorePersistentEntry pl port \<and>
              (\<exists>device\<in>set (granted_objects s origin).
                 device_matches pl port device = Inr True))))"
proof (intro conjI impI)
  show "HasPortPermission pl s origin port = Inr True \<longleftrightarrow>
      in_ephemeral_ports s origin (token port) \<or>
      (CanStorePersistentEntry pl port \<and>
       (\<exists>pre device post. granted_objects s origin = pre @ device # post \<and>
          (\<forall>e\<in>set pre. device_matches pl port e = Inr False) \<and>
          device_matches pl port device = Inr True))"
    using scan_granted_True_iff [of pl port "granted_objects s origin"]
    by (simp add: HasPortPermission_eq)
next
  assume "\<not> CanStorePersistentEntry pl port \<and> \<not> in_ephemeral_ports s origin (token port)"
  then show "HasPortPermission pl s origin port = Inr False"
    by (simp add: HasPortPermission_eq)
next
  assume "\<forall>device\<in>set (granted_objects s origin). has_expected_fields pl device"
  then show "HasPortPermission pl s origin port =
        Inr (in_ephemeral_ports s origin (token port) \<or>
             (CanStorePersistentEntry pl port \<and>
              (\<exists>device\<in>set (granted_objects s origin).
                 device_matches pl port device = Inr True)))"
    by (simp add: HasPortPermission_eq scan_granted_expected device_matches_True_iff)
qed

theorem C1_HasPortPermission_witness:
  "HasPortPermission OS_OTHER
     (GrantPortPermission OS_OTHER GrantObjectPermission ''https://a.example'' widget_port
        empty_context)
     ''https://a.example'' (widget_port\<lparr>token := \<lparr>high = 5, low = 6\<rparr>\<rparr>) = Inr True \<and>
   HasPortPermission OS_OTHER
     (GrantPortPermission OS_OTHER GrantObjectPermission ''https://a.example'' nameless_port
        empty_context)
     ''https://a.example'' nameless_port = Inr True \<and>
   HasPortPermission OS_OTHER
     (GrantPortPermission OS_OTHER GrantObjectPermission ''https://a.example'' nameless_port
        empty_context)
     ''https://a.example'' (nameless_port\<lparr>token := \<lparr>high = 5, low = 6\<rparr>\<rparr>) = Inr False"
proof -
  let ?a = "''https://a.example''"
  let ?s1 = "GrantPortPermission OS_OTHER GrantObjectPermission ?a widget_port empty_context"
  let ?s2 = "GrantPortPermission OS_OTHER GrantObjectPermission ?a nameless_port empty_context"
  let ?w = "widget_port\<lparr>token := \<lparr>high = 5, low = 6\<rparr>\<rparr>"
  let ?n = "nameless_port\<lparr>token := \<lparr>high = 5, low = 6\<rparr>\<rparr>"
  have g1: "granted_objects ?s1 ?a = [PortInfoToValue OS_OTHER widget_port]"
    and e1: "ephemeral_ports ?s1 ?a = None"
    by (simp_all add: GrantPortPermission_def CanStorePersistentEntry_def example_defs
        GrantObjectPermission_def Let_def)
  have e2: "ephemeral_ports ?s2 ?a = Some {\<lparr>high = 3, low = 4\<rparr>}"
    by (simp add: GrantPortPermission_def CanStorePersistentEntry_def example_defs Let_def)
  have v: "PortInfoToValue OS_OTHER widget_port =
             [kPortNameKey \<mapsto> StringValue ''Widget Adapter'', kVendorIdKey \<mapsto> IntValue 4660,
              kProductIdKey \<mapsto> IntValue 22136, kSerialNumberKey \<mapsto> StringValue ''ABC123'']"
    by (simp add: PortInfoToValue_def CanStorePersistentEntry_def example_defs Let_def)
  have x: "has_expected_fields OS_OTHER (PortInfoToValue OS_OTHER widget_port)"
    "device_matches OS_OTHER ?w (PortInfoToValue OS_OTHER widget_port) = Inr True"
    unfolding v
    by (simp_all add: has_expected_fields_def device_matches_def lookup_defs key_defs example_defs)
  have c: "CanStorePersistentEntry OS_OTHER ?w" "\<not> CanStorePersistentEntry OS_OTHER ?n"
    "\<not> CanStorePersistentEntry OS_OTHER nameless_port"
    by (simp_all add: CanStorePersistentEntry_def example_defs)
  have i: "\<not> in_ephemeral_ports ?s1 ?a (token ?w)" "in_ephemeral_ports ?s2 ?a (token nameless_port)"
    "\<not> in_ephemeral_ports ?s2 ?a (token ?n)"
    unfolding in_ephemeral_ports_def e1 e2 by (simp_all add: example_defs)
  have 1: "HasPortPermission OS_OTHER ?s1 ?a ?w = Inr True"
    using C1_HasPortPermission [of OS_OTHER ?s1 ?a ?w] g1 x c i by simp
  have 2: "HasPortPermission OS_OTHER ?s2 ?a nameless_port = Inr True"
    using C1_HasPortPermission [of OS_OTHER ?s2 ?a nameless_port] i by simp
  have 3: "HasPortPermission OS_OTHER ?s2 ?a ?n = Inr False"
    using C1_HasPortPermission [of OS_OTHER ?s2 ?a ?n] c i by simp
  from 1 2 3 show ?thesis by simp
qed





subsection \<open>Connection loss and device events\<close>

text \<open>
  C4. After \<^verbatim>\<open>OnPortManagerConnectionError\<close> the map \<^verbatim>\<open>port_info_\<close> and the whole of
  \<^verbatim>\<open>ephemeral_ports_\<close> are empty and the durable collection is unchanged. A descriptor was
  only ephemerally granted when the durable path does not grant it: it cannot be stored
  persistently, or the scan of the origin's durable collection finds no match. For every
  such descriptor the check after the disconnect returns false, and a check that returns
  true after the disconnect is owed to the durable collection alone.
\<close>

theorem C4_OnPortManagerConnectionError:
  "port_info (OnPortManagerConnectionError s) = Map.empty \<and>
   ephemeral_ports (OnPortManagerConnectionError s) = Map.empty \<and>
   granted_objects (OnPortManagerConnectionError s) = granted_objects s \<and>
   (\<not> CanStorePersistentEntry pl port \<longrightarrow>
      HasPortPermission pl (OnPortManagerConnectionError s) origin port = Inr False) \<and>
   (scan_granted pl port (granted_objects s origin) = Inr False \<longrightarrow>
      HasPortPermission pl (OnPortManagerConnectionError s) origin port = Inr False) \<and>
   (HasPortPermission pl (OnPortManagerConnectionError s) origin port = Inr True \<longrightarrow>
      CanStorePersistentEntry pl port \<and>
      scan_granted pl port (granted_objects s origin) = Inr True)"
  by (simp add: OnPortManagerConnectionError_def HasPortPermission_def)

theorem C4_OnPortManagerConnectionError_witness:
  "\<not> CanStorePersistentEntry OS_OTHER nameless_port \<and>
   HasPortPermission OS_OTHER
     (GrantPortPermission OS_OTHER GrantObjectPermission ''https://a.example'' nameless_port
        empty_context)
     ''https://a.example'' nameless_port = Inr True \<and>
   HasPortPermission OS_OTHER
     (OnPortManagerConnectionError
        (GrantPortPermission OS_OTHER GrantObjectPermission ''https://a.example'' nameless_port
           empty_context))
     ''https://a.example'' nameless_port = Inr False \<and>
   port_info
     (OnPortManagerConnectionError
        (GrantPortPermission OS_OTHER GrantObjectPermission ''https://a.example'' nameless_port
           empty_context)) = Map.empty \<and>
   granted_objects
     (OnPortManagerConnectionError
        (GrantPortPermission OS_OTHER GrantObjectPermission ''https://a.example'' widget_port
           empty_context)) ''https://a.example'' = [PortInfoToValue OS_OTHER widget_port]"
proof -
  let ?a = "''https://a.example''"
  let ?s = "GrantPortPermission OS_OTHER GrantObjectPermission ?a nameless_port empty_context"
  let ?t = "GrantPortPermission OS_OTHER GrantObjectPermission ?a widget_port empty_context"
  have c: "\<not> CanStorePersistentEntry OS_OTHER nameless_port"
    by (simp add: CanStorePersistentEntry_def example_defs)
  have e: "ephemeral_ports ?s ?a = Some {\<lparr>high = 3, low = 4\<rparr>}"
    by (simp add: GrantPortPermission_def CanStorePersistentEntry_def example_defs Let_def)
  have b: "HasPortPermission OS_OTHER ?s ?a nameless_port = Inr True"
    unfolding HasPortPermission_def e by (simp add: example_defs)
  have g: "granted_objects ?t ?a = [PortInfoToValue OS_OTHER widget_port]"
    by (simp add: GrantPortPermission_def CanStorePersistentEntry_def example_defs
        GrantObjectPermission_def Let_def)
  show ?thesis
    using C4_OnPortManagerConnectionError [of ?s OS_OTHER nameless_port ?a]
      C4_OnPortManagerConnectionError [of ?t OS_OTHER nameless_port ?a] c b g
    by simp
qed

text \<open>
  C8, as stated, fails: \<^verbatim>\<open>OnPortAdded\<close> only notifies the observers; it does not touch
  \<^verbatim>\<open>port_info_\<close>. After the arrival of \<open>widget_port\<close> in the empty context the map has
  no entry for its token.
\<close>

theorem C8_OnPortAdded_counterexample:
  "port_info (OnPortAdded widget_port empty_context) (token widget_port) = None"
  by (simp add: OnPortAdded_def empty_context_def)

text \<open>
  C8, amended. \<^verbatim>\<open>OnPortAdded\<close> calls every registered observer, in registration order,
  with the descriptor and leaves \<^verbatim>\<open>port_info_\<close> unchanged (only \<^verbatim>\<open>GrantPortPermission\<close>
  inserts into it). \<^verbatim>\<open>OnPortRemoved\<close> calls every registered observer with the descriptor
  and erases the descriptor's token from \<^verbatim>\<open>port_info_\<close>. Both leave the ephemeral sets and
  the durable collection unchanged: a removal revokes no grant.
\<close>

theorem C8_OnPortAdded_OnPortRemoved:
  "observer_calls (OnPortAdded port s) =
     observer_calls s @ map (\<lambda>ob. (ob, PortAdded port)) (port_observer_list s) \<and>
   port_info (OnPortAdded port s) = port_info s \<and>
   ephemeral_ports (OnPortAdded port s) = ephemeral_ports s \<and>
   granted_objects (OnPortAdded port s) = granted_objects s \<and>
   observer_calls (OnPortRemoved port s) =
     observer_calls s @ map (\<lambda>ob. (ob, PortRemoved port)) (port_observer_list s) \<and>
   port_info (OnPortRemoved port s) = (port_info s)(token port := None) \<and>
   ephemeral_ports (OnPortRemoved port s) = ephemeral_ports s \<and>
   granted_objects (OnPortRemoved port s) = granted_objects s \<and>
   HasPortPermission pl (OnPortRemoved port s) origin port' = HasPortPermission pl s origin port'"
  by (simp add: OnPortAdded_def OnPortRemoved_def HasPortPermission_def Let_def)

theorem C8_OnPortAdded_OnPortRemoved_witness:
  "observer_calls (OnPortAdded widget_port (AddPortObserver 2 (AddPortObserver 1 empty_context))) =
     [(1, PortAdded widget_port), (2, PortAdded widget_port)] \<and>
   port_info (GrantPortPermission OS_OTHER GrantObjectPermission ''https://a.example''
                nameless_port empty_context) \<lparr>high = 3, low = 4\<rparr> =
     Some (PortInfoToValue OS_OTHER nameless_port) \<and>
   port_info (OnPortRemoved nameless_port
     (GrantPortPermission OS_OTHER GrantObjectPermission ''https://a.example''
        nameless_port empty_context)) \<lparr>high = 3, low = 4\<rparr> = None \<and>
   HasPortPermission OS_OTHER (OnPortRemoved nameless_port
     (GrantPortPermission OS_OTHER GrantObjectPermission ''https://a.example''
        nameless_port empty_context)) ''https://a.example'' nameless_port = Inr True"
proof -
  let ?a = "''https://a.example''"
  let ?s = "GrantPortPermission OS_OTHER GrantObjectPermission ?a nameless_port empty_context"
  let ?o = "AddPortObserver 2 (AddPortObserver 1 empty_context)"
  have o: "port_observer_list ?o = [1, 2]" "observer_calls ?o = []"
    by (simp_all add: AddPortObserver_def empty_context_def)
  have e: "ephemeral_ports ?s ?a = Some {\<lparr>high = 3, low = 4\<rparr>}"
    and p: "port_info ?s \<lparr>high = 3, low = 4\<rparr> = Some (PortInfoToValue OS_OTHER nameless_port)"
    by (simp_all add: GrantPortPermission_def CanStorePersistentEntry_def example_defs Let_def)
  have b: "HasPortPermission OS_OTHER ?s ?a nameless_port = Inr True"
    unfolding HasPortPermission_def e by (simp add: example_defs)
  have t: "token nameless_port = \<lparr>high = 3, low = 4\<rparr>"
    by (simp add: example_defs)
  show ?thesis
    using C8_OnPortAdded_OnPortRemoved [of widget_port ?o OS_OTHER ?a nameless_port]
      C8_OnPortAdded_OnPortRemoved [of nameless_port ?s OS_OTHER ?a nameless_port]
      o p b t
    by simp
qed

subsection \<open>Isolation of origins\<close>

text \<open>
  C10. For two distinct origins \<open>A\<close> and \<open>B\<close> and descriptors \<open>D\<close> and \<open>D'\<close>, where \<open>D\<close>
  cannot be stored persistently, granting \<open>D\<close> to \<open>A\<close> does not change the result of the
  check of \<open>D'\<close> for \<open>B\<close>, whatever the write of the browser context is.
\<close>

theorem C10_ephemeral_grant_isolation:
  "A \<noteq> B \<Longrightarrow> \<not> CanStorePersistentEntry pl D \<Longrightarrow>
   HasPortPermission pl (GrantPortPermission pl grant_object A D s) B D' =
   HasPortPermission pl s B D'"
  by (simp add: GrantPortPermission_def HasPortPermission_def Let_def)

theorem C10_ephemeral_grant_isolation_witness:
  "''https://a.example'' \<noteq> ''https://b.example'' \<and>
   \<not> CanStorePersistentEntry OS_OTHER nameless_port \<and>
   HasPortPermission OS_OTHER
     (GrantPortPermission OS_OTHER GrantObjectPermission ''https://a.example'' nameless_port
        empty_context) ''https://b.example'' nameless_port = Inr False \<and>
   HasPortPermission OS_OTHER
     (GrantPortPermission OS_OTHER GrantObjectPermission ''https://a.example'' nameless_port
        empty_context) ''https://a.example'' nameless_port = Inr True"
proof -
  let ?a = "''https://a.example''"
  let ?b = "''https://b.example''"
  let ?s = "GrantPortPermission OS_OTHER GrantObjectPermission ?a nameless_port empty_context"
  have n: "?a \<noteq> ?b" by simp
  have c: "\<not> CanStorePersistentEntry OS_OTHER nameless_port"
    by (simp add: CanStorePersistentEntry_def example_defs)
  have e: "ephemeral_ports ?s ?a = Some {\<lparr>high = 3, low = 4\<rparr>}"
    by (simp add: GrantPortPermission_def CanStorePersistentEntry_def example_defs Let_def)
  have a: "HasPortPermission OS_OTHER ?s ?a nameless_port = Inr True"
    unfolding HasPortPermission_def e by (simp add: example_defs)
  have z: "HasPortPermission OS_OTHER empty_context ?b nameless_port = Inr False"
    using c by (simp add: HasPortPermission_def empty_context_def)
  have "HasPortPermission OS_OTHER ?s ?b nameless_port =
        HasPortPermission OS_OTHER empty_context ?b nameless_port"
    by (rule C10_ephemeral_grant_isolation [OF n c])
  with n c a z show ?thesis by simp
qed

end
